theory Spec2Isabelle
  imports Complex_Main
begin

section \<open>Functional linear modelling: the class FLM of pyActigraphy/analysis/flm.py\<close>

text \<open>
  The embedding follows \<^verbatim>\<open>flm.py\<close> method by method. Python objects become records, the
  private attributes \<^verbatim>\<open>self.__x\<close> become the fields of the record \<open>FLM\<close>, and every
  method takes the object and returns it updated. An exception is a value \<open>Inl e\<close>; a
  method that mutates the object before it raises returns the mutated object beside
  the error, as the caller of the Python method would find it.

  Numbers: \<^verbatim>\<open>float64\<close> values are modelled as \<open>real\<close>, so rounding, \<^verbatim>\<open>inf\<close> and
  \<^verbatim>\<open>nan\<close> are not represented; sizes are \<open>nat\<close>, Python integers are \<open>int\<close>.
\<close>

subsection \<open>Exceptions and values\<close>

datatype error =
    ValueError string
  | TypeError string
  | ZeroDivisionError string
  | UnboundLocalError string

text \<open>
  The B-spline representation returned by \<^verbatim>\<open>scipy.interpolate.splrep\<close>: the knots, the
  coefficients and the degree. \<^verbatim>\<open>fit\<close> stores it as a list, \<^verbatim>\<open>evaluate\<close> turns it back
  into a tuple.
\<close>

datatype tck = Tck "real list" "real list" int

text \<open>
  What \<^verbatim>\<open>self.__beta\<close> holds once set: the parameter vector of the least-squares fit
  (Fourier) or the spline representation (spline).
\<close>

datatype coefficients = Params "real list" | Spline tck

text \<open>
  A record of the reader: only its \<^verbatim>\<open>display_name\<close> and its method
  \<^verbatim>\<open>average_daily_activity(binarize, freq)\<close> are used. The method returns a series; the
  model keeps its values (the length of the values is \<^verbatim>\<open>index.size\<close>).
\<close>

record raw =
  display_name :: string
  average_daily_activity :: "bool \<Rightarrow> string \<Rightarrow> error + real list"

record reader =
  readers :: "raw list"

text \<open>
  A positional argument as Python passes it: the code passes integers and reader records
  to \<^verbatim>\<open>evaluate\<close>.
\<close>

datatype pyarg = ArgInt int | ArgRaw raw

text \<open>
  The argument \<^verbatim>\<open>method\<close> of \<^verbatim>\<open>smooth\<close>: a string, a number, or an object that is
  neither and for which \<^verbatim>\<open>np.isscalar\<close> is false (\<^verbatim>\<open>None\<close>, a list).
\<close>

datatype method_arg = Str string | Num real | NonScalar

text \<open>
  The numerical libraries the class calls, taken as parameters:
  \<^verbatim>\<open>sm.OLS(y, X).fit().params\<close>, \<^verbatim>\<open>splrep(t, y, k=k)\<close>, \<^verbatim>\<open>splev(t, tck)\<close> and
  \<^verbatim>\<open>spm1d.util.smooth(y, fwhm=fwhm)\<close>. A matrix is the list of its columns.
\<close>

record externals =
  OLS_params :: "real list \<Rightarrow> real list list \<Rightarrow> error + real list"
  splrep :: "real list \<Rightarrow> real list \<Rightarrow> int \<Rightarrow> error + tck"
  splev :: "real list \<Rightarrow> tck \<Rightarrow> error + real list"
  spm1d_util_smooth :: "real list \<Rightarrow> real \<Rightarrow> error + real list"

subsection \<open>The object\<close>

record FLM =
  basis :: string
  sampling_freq :: string
  nsamples :: "nat option"
  max_order :: "int option"
  basis_functions :: "real list list option"
  beta :: "coefficients option"

definition bases :: "string list" where
  "bases = [''fourier'', ''spline'', ''ssa'', ''wavelet'']"

text \<open>\<^verbatim>\<open>FLM.__init__(basis, sampling_freq, max_order=None)\<close>.\<close>

definition init :: "string \<Rightarrow> string \<Rightarrow> int option \<Rightarrow> error + FLM" where
  "init b sf mo =
     (if b \<notin> set bases
      then Inl (ValueError ''`basis` must be one of the known bases'')
      else Inr \<lparr>basis = b, sampling_freq = sf, nsamples = None, max_order = mo,
                basis_functions = None, beta = None\<rparr>)"

subsection \<open>numpy\<close>

text \<open>
  \<^verbatim>\<open>np.linspace(start, stop, num, endpoint=False)\<close>: \<open>num\<close> points
  \<open>start + i * (stop - start) / num\<close>; a negative \<open>num\<close> raises. (\<^verbatim>\<open>evaluate\<close> also
  passes \<^verbatim>\<open>dtype=np.float\<close>, the alias of Python's \<^verbatim>\<open>float\<close> in the numpy versions
  that have it.)
\<close>

definition np_linspace :: "real \<Rightarrow> real \<Rightarrow> int \<Rightarrow> error + real list" where
  "np_linspace start stop num =
     (if num < 0 then Inl (ValueError ''Number of samples must be non-negative'')
      else Inr (map (\<lambda>i. start + real i * ((stop - start) / real_of_int num)) [0..<nat num]))"

text \<open>
  \<^verbatim>\<open>np.stack(arrays, axis=1)\<close> of one-dimensional arrays: they become the columns of a
  matrix. It raises on an empty list and on arrays of different lengths.
\<close>

definition np_stack_axis1 :: "real list list \<Rightarrow> error + real list list" where
  "np_stack_axis1 arrays =
     (case arrays of
        [] \<Rightarrow> Inl (ValueError ''need at least one array to stack'')
      | a # as \<Rightarrow>
          if list_all (\<lambda>b. length b = length a) as then Inr arrays
          else Inl (ValueError ''all input arrays must have the same shape''))"

text \<open>
  \<^verbatim>\<open>np.dot(X, b)\<close> of a matrix with a vector: one entry per row, and an error when
  the vector has not one entry per column. (A list of columns cannot be a matrix without
  columns; \<open>np_stack_axis1\<close> never returns one.)
\<close>

definition np_dot :: "real list list \<Rightarrow> real list \<Rightarrow> error + real list" where
  "np_dot X b =
     (case X of
        [] \<Rightarrow> Inl (ValueError ''shapes not aligned'')
      | col # cols \<Rightarrow>
          if length b \<noteq> length X then Inl (ValueError ''shapes not aligned'')
          else Inr (map (\<lambda>i. sum_list (map2 (\<lambda>col c. col ! i * c) X b))
                        [0..<length col]))"

subsection \<open>Basis functions\<close>

text \<open>
  \<^verbatim>\<open>FLM.__create_basis_functions(T)\<close>. \<open>T\<close> is \<^verbatim>\<open>self.nsamples\<close>, \<^verbatim>\<open>None\<close> before the
  first fit. The errors are those of \<^verbatim>\<open>2*np.pi / T\<close> and of \<^verbatim>\<open>self.max_order+1\<close>, in the
  order in which the code evaluates them; nothing is stored when one is raised.
\<close>

definition create_basis_functions :: "FLM \<Rightarrow> nat option \<Rightarrow> error + FLM" where
  "create_basis_functions m T =
     (if basis m = ''fourier'' then
        (case T of
           None \<Rightarrow> Inl (TypeError ''unsupported operand type(s) for /'')
         | Some T \<Rightarrow>
             if T = 0 then Inl (ZeroDivisionError ''float division by zero'')
             else
               (let omega = 2 * pi / real T in
                case np_linspace 0 (real T) (int T) of
                  Inl e \<Rightarrow> Inl e
                | Inr t \<Rightarrow>
                    (case max_order m of
                       None \<Rightarrow> Inl (TypeError ''unsupported operand type(s) for +'')
                     | Some k \<Rightarrow>
                         Inr (m\<lparr>basis_functions := Some
                               (map (\<lambda>x. cos (0 * x)) t #
                                concat (map (\<lambda>n. [map (\<lambda>x. cos (real_of_int n * omega * x)) t,
                                                   map (\<lambda>x. sin (real_of_int n * omega * x)) t])
                                            [1..k]))\<rparr>))))
      else Inr (m\<lparr>basis_functions := Some []\<rparr>))"

text \<open>
  The property \<^verbatim>\<open>basis_functions\<close>: the cached list, built on the first access and
  never again. (After \<open>create_basis_functions\<close> has returned, the attribute is set, so
  the innermost \<open>None\<close> case does not occur.)
\<close>

definition get_basis_functions :: "FLM \<Rightarrow> (error + real list list) \<times> FLM" where
  "get_basis_functions m =
     (case basis_functions m of
        Some phi \<Rightarrow> (Inr phi, m)
      | None \<Rightarrow>
          (case create_basis_functions m (nsamples m) of
             Inl e \<Rightarrow> (Inl e, m)
           | Inr m' \<Rightarrow>
               (case basis_functions m' of
                  Some phi \<Rightarrow> (Inr phi, m')
                | None \<Rightarrow> (Inl (TypeError ''basis functions not set''), m'))))"

subsection \<open>fit and evaluate\<close>

text \<open>
  \<^verbatim>\<open>FLM.fit(raw, binarize=False, verbose=False)\<close>. \<open>verbose\<close> only prints. The method
  returns nothing; the state it leaves is the second component, also when it raises.
\<close>

definition fit :: "externals \<Rightarrow> FLM \<Rightarrow> raw \<Rightarrow> bool \<Rightarrow> bool \<Rightarrow> (error + unit) \<times> FLM" where
  "fit ext m rw binarize verbose =
     (case average_daily_activity rw binarize (sampling_freq m) of
        Inl e \<Rightarrow> (Inl e, m)
      | Inr daily_avg \<Rightarrow>
          (let m1 = m\<lparr>nsamples := Some (length daily_avg)\<rparr> in
           if basis m1 = ''fourier'' then
             (case get_basis_functions m1 of
                (Inl e, m2) \<Rightarrow> (Inl e, m2)
              | (Inr phi, m2) \<Rightarrow>
                  (case np_stack_axis1 phi of
                     Inl e \<Rightarrow> (Inl e, m2)
                   | Inr X \<Rightarrow>
                       (case OLS_params ext daily_avg X of
                          Inl e \<Rightarrow> (Inl e, m2)
                        | Inr params \<Rightarrow> (Inr (), m2\<lparr>beta := Some (Params params)\<rparr>))))
           else if basis m1 = ''spline'' then
             (case nsamples m1 of
                None \<Rightarrow> (Inl (TypeError ''nsamples is None''), m1)
              | Some T \<Rightarrow>
                  (case np_linspace 0 (real T) (int T) of
                     Inl e \<Rightarrow> (Inl e, m1)
                   | Inr t \<Rightarrow>
                       (let k = (case max_order m1 of None \<Rightarrow> 3 | Some mo \<Rightarrow> mo) in
                        case splrep ext t daily_avg k of
                          Inl e \<Rightarrow> (Inl e, m1)
                        | Inr rep \<Rightarrow> (Inr (), m1\<lparr>beta := Some (Spline rep)\<rparr>))))
           else (Inr (), m1)))"

text \<open>
  \<^verbatim>\<open>FLM.evaluate(r=10)\<close>. The result is \<open>Some\<close> array, or \<open>None\<close> where the Python method
  ends without a \<^verbatim>\<open>return\<close>. \<open>r\<close> is whatever the caller passed; the spline branch
  multiplies it with \<^verbatim>\<open>self.nsamples\<close>, which raises unless it is a number. A
  coefficient object of the other basis cannot be multiplied or unpacked.
\<close>

definition evaluate_msg :: string where
  "evaluate_msg =
     ''The basis function expansion parameters are empty.'' @ [CHR 0x0A] @
     ''Please run the `self.fit` method first.''"

definition evaluate ::
  "externals \<Rightarrow> FLM \<Rightarrow> pyarg \<Rightarrow> (error + real list option) \<times> FLM" where
  "evaluate ext m r =
     (case beta m of
        None \<Rightarrow> (Inl (ValueError evaluate_msg), m)
      | Some b \<Rightarrow>
          if basis m = ''fourier'' then
            (case get_basis_functions m of
               (Inl e, m2) \<Rightarrow> (Inl e, m2)
             | (Inr phi, m2) \<Rightarrow>
                 (case np_stack_axis1 phi of
                    Inl e \<Rightarrow> (Inl e, m2)
                  | Inr X \<Rightarrow>
                      (case b of
                         Params p \<Rightarrow> (map_sum id Some (np_dot X p), m2)
                       | Spline rep \<Rightarrow> (Inl (ValueError ''shapes not aligned''), m2))))
          else if basis m = ''spline'' then
            (case nsamples m of
               None \<Rightarrow> (Inl (TypeError ''nsamples is None''), m)
             | Some T \<Rightarrow>
                 (case r of
                    ArgRaw x \<Rightarrow> (Inl (TypeError ''unsupported operand type(s) for *''), m)
                  | ArgInt ri \<Rightarrow>
                      (case np_linspace 0 (real T) (ri * int T) of
                         Inl e \<Rightarrow> (Inl e, m)
                       | Inr t \<Rightarrow>
                           (case b of
                              Spline rep \<Rightarrow> (map_sum id Some (splev ext t rep), m)
                            | Params p \<Rightarrow> (Inl (ValueError ''not a spline representation''), m)))))
          else (Inr None, m))"

text \<open>
  A call \<^verbatim>\<open>self.evaluate(a1, ..., an)\<close>: Python binds the positional arguments to the
  parameters of \<^verbatim>\<open>def evaluate(self, r=10)\<close> before the body runs. No argument leaves
  the default, one is bound to \<open>r\<close>, and more than one raises \<^verbatim>\<open>TypeError\<close>.
\<close>

definition evaluate_call ::
  "externals \<Rightarrow> FLM \<Rightarrow> pyarg list \<Rightarrow> (error + real list option) \<times> FLM" where
  "evaluate_call ext m args =
     (case args of
        [] \<Rightarrow> evaluate ext m (ArgInt 10)
      | [r] \<Rightarrow> evaluate ext m r
      | _ \<Rightarrow> (Inl (TypeError ''evaluate() takes from 1 to 2 positional arguments''), m))"

text \<open>(The message of Python also counts the arguments that were given.)\<close>

subsection \<open>evaluate\_reader\<close>

text \<open>
  \<^verbatim>\<open>dict(pairs)\<close>: a later pair replaces an earlier one with the same key.
\<close>

definition py_dict :: "('k \<times> 'v) list \<Rightarrow> ('k \<rightharpoonup> 'v)" where
  "py_dict pairs = fold (\<lambda>(k, v) d. d(k \<mapsto> v)) pairs Map.empty"

text \<open>
  The list comprehension
  \<^verbatim>\<open>[(raw.display_name, self.evaluate(raw, r)) for raw in reader.readers]\<close>
  of the branch \<^verbatim>\<open>n_jobs == 1\<close>: the records in order, stopping at the first exception.
\<close>

fun evaluate_each ::
  "externals \<Rightarrow> FLM \<Rightarrow> raw list \<Rightarrow> int \<Rightarrow>
     (error + (string \<times> real list option) list) \<times> FLM" where
  "evaluate_each ext m [] r = (Inr [], m)"
| "evaluate_each ext m (rw # rws) r =
     (case evaluate_call ext m [ArgRaw rw, ArgInt r] of
        (Inl e, m') \<Rightarrow> (Inl e, m')
      | (Inr y, m') \<Rightarrow>
          (case evaluate_each ext m' rws r of
             (Inl e, m'') \<Rightarrow> (Inl e, m'')
           | (Inr ps, m'') \<Rightarrow> (Inr ((display_name rw, y) # ps), m'')))"

text \<open>
  \<^verbatim>\<open>FLM.evaluate_reader(reader, r=10, n_jobs=1)\<close>, the sequential branch
  (\<^verbatim>\<open>n_jobs == 1\<close>). The branch that hands the calls to joblib is not part of the model.
\<close>

definition evaluate_reader ::
  "externals \<Rightarrow> FLM \<Rightarrow> reader \<Rightarrow> int \<Rightarrow>
     (error + (string \<rightharpoonup> real list option)) \<times> FLM" where
  "evaluate_reader ext m rd r =
     (case evaluate_each ext m (readers rd) r of
        (Inl e, m') \<Rightarrow> (Inl e, m')
      | (Inr ps, m') \<Rightarrow> (Inr (py_dict ps), m'))"

subsection \<open>smooth\<close>

text \<open>
  \<^verbatim>\<open>_scotts_factor(n, d)\<close> and \<^verbatim>\<open>_silverman_factor(n, d)\<close>: \<^verbatim>\<open>np.power\<close> with the
  exponent \<^verbatim>\<open>-1./(d+4)\<close>. (For \<open>n = 0\<close> numpy returns \<^verbatim>\<open>inf\<close>, which \<open>real\<close> does not
  have.)
\<close>

definition scotts_factor :: "nat \<Rightarrow> int \<Rightarrow> real" where
  "scotts_factor n d = real n powr (- 1 / real_of_int (d + 4))"

definition silverman_factor :: "nat \<Rightarrow> int \<Rightarrow> real" where
  "silverman_factor n d =
     (real n * (real_of_int d + 2) / 4) powr (- 1 / real_of_int (d + 4))"

text \<open>
  \<^verbatim>\<open>ndarray.std(ddof)\<close>: the square root of the sum of the squared deviations from the
  mean, divided by \<open>N - ddof\<close>. (With fewer than \<open>ddof + 1\<close> values numpy returns
  \<^verbatim>\<open>nan\<close> or \<^verbatim>\<open>inf\<close>, which \<open>real\<close> does not have.)
\<close>

definition np_std :: "real list \<Rightarrow> nat \<Rightarrow> real" where
  "np_std xs ddof =
     (let mean = sum_list xs / real (length xs)
      in sqrt (sum_list (map (\<lambda>x. (x - mean)\<^sup>2) xs) / real (length xs - ddof)))"

text \<open>
  \<^verbatim>\<open>FLM.smooth(raw, binarize=False, method='scotts')\<close>. The local variable \<^verbatim>\<open>fwhm\<close> is
  \<open>Some\<close> value once a branch has assigned it; reading it unassigned raises
  \<^verbatim>\<open>UnboundLocalError\<close>. The last branch is
  \<^verbatim>\<open>np.isscalar(method) and not isinstance(method, str)\<close>. The object is not changed.
\<close>

definition smooth ::
  "externals \<Rightarrow> FLM \<Rightarrow> raw \<Rightarrow> bool \<Rightarrow> method_arg \<Rightarrow> error + real list" where
  "smooth ext m rw binarize method =
     (case average_daily_activity rw binarize (sampling_freq m) of
        Inl e \<Rightarrow> Inl e
      | Inr daily_avg \<Rightarrow>
          (let sd2fwhm = sqrt (8 * ln 2);
               data_std = np_std daily_avg 1;
               fwhm =
                 (if method = Str ''scotts''
                  then Some (scotts_factor (length daily_avg) 1 * sd2fwhm * data_std)
                  else if method = Str ''silverman''
                  then Some (silverman_factor (length daily_avg) 1 * sd2fwhm * data_std)
                  else (case method of
                          Num x \<Rightarrow> Some x
                        | Str s \<Rightarrow> None
                        | NonScalar \<Rightarrow> None))
           in case fwhm of
                None \<Rightarrow>
                  Inl (UnboundLocalError
                         ''local variable fwhm referenced before assignment'')
              | Some w \<Rightarrow> spm1d_util_smooth ext daily_avg w))"

subsection \<open>The life of an object\<close>

text \<open>
  The calls a client makes on one object, in order. An exception ends the call, not the
  object: the client may go on with it. The flag beside the object records whether
  some call of \<^verbatim>\<open>fit\<close> has returned without an exception.
\<close>

datatype call = Fit raw bool bool | Evaluate pyarg | Smooth raw bool method_arg

fun lifecycle :: "externals \<Rightarrow> call list \<Rightarrow> FLM \<times> bool \<Rightarrow> FLM \<times> bool" where
  "lifecycle ext [] s = s"
| "lifecycle ext (Fit rw b v # cs) (m, fitted) =
     (case fit ext m rw b v of
        (Inl e, m') \<Rightarrow> lifecycle ext cs (m', fitted)
      | (Inr u, m') \<Rightarrow> lifecycle ext cs (m', True))"
| "lifecycle ext (Evaluate r # cs) (m, fitted) =
     lifecycle ext cs (snd (evaluate ext m r), fitted)"
| "lifecycle ext (Smooth rw b me # cs) (m, fitted) = lifecycle ext cs (m, fitted)"

subsection \<open>The Fourier basis as the specification describes it\<close>

text \<open>
  Written from the specification, to be compared with \<open>create_basis_functions\<close>: for
  cycle length \<open>T\<close> and \<open>k\<close> harmonics, the constant vector, then for \<open>n = 1, ..., k\<close> the
  cosine and the sine of \<open>n * (2 * pi / T) * i\<close> at the points \<open>i = 0, ..., T - 1\<close>.
\<close>

definition fourier_basis_spec :: "nat \<Rightarrow> nat \<Rightarrow> real list list" where
  "fourier_basis_spec T k =
     replicate T 1 #
     concat (map (\<lambda>n. [map (\<lambda>i. cos (real n * (2 * pi / real T) * real i)) [0..<T],
                        map (\<lambda>i. sin (real n * (2 * pi / real T) * real i)) [0..<T]])
                 [1..<Suc k])"

subsection \<open>Example collaborators\<close>

text \<open>
  Concrete collaborators on which the theorems below are instantiated: a record that
  delivers a fixed daily average, and stand-ins for the numerical libraries. The
  least-squares stand-in refuses, as statsmodels does, a design matrix whose number of
  rows is not the number of observations; the spline stand-ins refuse, as scipy does,
  fewer points than the degree plus one (\<^verbatim>\<open>splrep\<close>) and an empty array of points
  (\<^verbatim>\<open>splev\<close>).
\<close>

definition example_raw :: "string \<Rightarrow> real list \<Rightarrow> raw" where
  "example_raw name values =
     \<lparr>display_name = name, average_daily_activity = (\<lambda>binarize freq. Inr values)\<rparr>"

definition example_ext :: externals where
  "example_ext =
     \<lparr>OLS_params = (\<lambda>y X. if list_all (\<lambda>col. length col = length y) X
                           then Inr (replicate (length X) 1)
                           else Inl (ValueError ''endog and exog matrices are different sizes'')),
      splrep = (\<lambda>t y k. if length t = length y \<and> k < int (length t)
                         then Inr (Tck t y k)
                         else Inl (TypeError ''m > k must hold'')),
      splev = (\<lambda>t rep. if t = [] then Inl (ValueError ''Invalid input data'')
                        else Inr (map (\<lambda>x. 0) t)),
      spm1d_util_smooth = (\<lambda>y w. Inr y)\<rparr>"

section \<open>Properties\<close>

subsection \<open>Auxiliary facts\<close>

lemma create_basis_functions_frame:
  "create_basis_functions m T = Inr m' \<Longrightarrow>
     basis m' = basis m \<and> nsamples m' = nsamples m \<and> beta m' = beta m \<and>
     max_order m' = max_order m \<and> sampling_freq m' = sampling_freq m"
  by (auto simp: create_basis_functions_def Let_def
           split: if_splits option.splits sum.splits)

lemma get_basis_functions_frame:
  "get_basis_functions m = (res, m') \<Longrightarrow>
     basis m' = basis m \<and> nsamples m' = nsamples m \<and> beta m' = beta m \<and>
     max_order m' = max_order m \<and> sampling_freq m' = sampling_freq m"
  by (auto simp: get_basis_functions_def
           split: option.splits sum.splits dest: create_basis_functions_frame)

lemma upto_int_nat: "[1..int k] = map int [1..<Suc k]"
proof (induction k)
  case 0
  then show ?case by simp
next
  case (Suc k)
  have "[1..int (Suc k)] = [1..int k] @ [int (Suc k)]"
    using upto_rec2 [of 1 "int (Suc k)"] by simp
  with Suc show ?case by simp
qed

lemma np_linspace_cycle:
  "0 < T \<Longrightarrow> np_linspace 0 (real T) (int T) = Inr (map real [0..<T])"
  by (simp add: np_linspace_def)

lemma pairs_length: "length (concat (map (\<lambda>n. [f n, g n]) ns)) = 2 * length ns"
  by (induction ns) simp_all

lemma pairs_nth:
  "i < length ns \<Longrightarrow>
     concat (map (\<lambda>n. [f n, g n]) ns) ! (2 * i) = f (ns ! i) \<and>
     concat (map (\<lambda>n. [f n, g n]) ns) ! (2 * i + 1) = g (ns ! i)"
proof (induction ns arbitrary: i)
  case Nil
  then show ?case by simp
next
  case (Cons n ns)
  show ?case
  proof (cases i)
    case 0
    then show ?thesis by simp
  next
    case (Suc j)
    with Cons.prems have "j < length ns" by simp
    from Cons.IH [OF this] Suc show ?thesis by simp
  qed
qed

lemma create_fourier:
  assumes "basis m = ''fourier''" and "max_order m = Some (int k)" and "0 < T"
  shows "create_basis_functions m (Some T) =
           Inr (m\<lparr>basis_functions := Some (fourier_basis_spec T k)\<rparr>)"
  using assms
  by (simp add: create_basis_functions_def np_linspace_cycle upto_int_nat
                fourier_basis_spec_def o_def map_replicate_const del: upt_Suc)

lemma fourier_basis_spec_length: "length (fourier_basis_spec T k) = 2 * k + 1"
  by (simp add: fourier_basis_spec_def pairs_length del: upt_Suc)

lemma fourier_basis_spec_lengths: "v \<in> set (fourier_basis_spec T k) \<Longrightarrow> length v = T"
  by (auto simp: fourier_basis_spec_def simp del: upt_Suc)

lemma fourier_basis_spec_nth:
  assumes "1 \<le> n" and "n \<le> k"
  shows "fourier_basis_spec T k ! (2 * n - 1) =
           map (\<lambda>i. cos (real n * (2 * pi / real T) * real i)) [0..<T] \<and>
         fourier_basis_spec T k ! (2 * n) =
           map (\<lambda>i. sin (real n * (2 * pi / real T) * real i)) [0..<T]"
proof -
  let ?c = "\<lambda>n. map (\<lambda>i. cos (real n * (2 * pi / real T) * real i)) [0..<T]"
  let ?s = "\<lambda>n. map (\<lambda>i. sin (real n * (2 * pi / real T) * real i)) [0..<T]"
  let ?pairs = "concat (map (\<lambda>n. [?c n, ?s n]) [1..<Suc k])"
  obtain j where n: "n = Suc j" using assms(1) by (cases n) auto
  with assms(2) have j: "j < length [1..<Suc k]" by simp
  have nj: "[1..<Suc k] ! j = n" using j n by (simp del: upt_Suc)
  have i1: "2 * n - 1 = Suc (2 * j)" and i2: "2 * n = Suc (2 * j + 1)"
    using n by simp_all
  have "fourier_basis_spec T k ! (2 * n - 1) = ?pairs ! (2 * j)"
    by (simp only: i1 fourier_basis_spec_def nth_Cons_Suc)
  moreover have "fourier_basis_spec T k ! (2 * n) = ?pairs ! (2 * j + 1)"
    by (simp only: i2 fourier_basis_spec_def nth_Cons_Suc)
  moreover have "?pairs ! (2 * j) = ?c n \<and> ?pairs ! (2 * j + 1) = ?s n"
    using pairs_nth [OF j, of ?c ?s] by (simp only: nj)
  ultimately show ?thesis by simp
qed


lemma get_basis_functions_result:
  "get_basis_functions m = (Inr phi, m') \<Longrightarrow> basis_functions m' = Some phi"
  by (auto simp: get_basis_functions_def split: option.splits sum.splits)

lemma get_basis_functions_cached:
  "basis_functions m = Some phi \<Longrightarrow> get_basis_functions m = (Inr phi, m)"
  by (simp add: get_basis_functions_def)

lemma fit_frame:
  "fit ext m rw b v = (res, m') \<Longrightarrow> basis m' = basis m"
  by (auto simp: fit_def Let_def split: sum.splits option.splits prod.splits if_splits
           dest: get_basis_functions_frame)

lemma fit_error_keeps_beta:
  "fit ext m rw b v = (Inl e, m') \<Longrightarrow> beta m' = beta m"
  by (auto simp: fit_def Let_def split: sum.splits option.splits prod.splits if_splits
           dest: get_basis_functions_frame)

lemma fit_success_stores_beta:
  "fit ext m rw b v = (Inr u, m') \<Longrightarrow> basis m = ''fourier'' \<or> basis m = ''spline'' \<Longrightarrow>
     beta m' \<noteq> None"
  by (auto simp: fit_def Let_def split: sum.splits option.splits prod.splits if_splits)

lemma evaluate_frame:
  "evaluate ext m r = (res, m') \<Longrightarrow> basis m' = basis m \<and> beta m' = beta m"
  by (auto simp: evaluate_def split: sum.splits option.splits prod.splits if_splits
                 coefficients.splits pyarg.splits
           dest: get_basis_functions_frame)

lemma lifecycle_invariant:
  "basis m = ''fourier'' \<or> basis m = ''spline'' \<Longrightarrow> (beta m \<noteq> None) = fitted \<Longrightarrow>
   lifecycle ext cs (m, fitted) = (m', fitted') \<Longrightarrow>
     basis m' = basis m \<and> (beta m' \<noteq> None) = fitted'"
proof (induction cs arbitrary: m fitted)
  case Nil
  then show ?case by simp
next
  case (Cons c cs)
  show ?case
  proof (cases c)
    case (Fit rw b v)
    obtain res m1 where f: "fit ext m rw b v = (res, m1)"
      by (cases "fit ext m rw b v")
    have b1: "basis m1 = basis m" using fit_frame [OF f] .
    show ?thesis
    proof (cases res)
      case (Inl e)
      with f have "beta m1 = beta m" by (simp add: fit_error_keeps_beta)
      with Cons.prems b1 f Inl Fit Cons.IH [of m1 fitted] show ?thesis by simp
    next
      case (Inr u)
      with f Cons.prems(1) have "beta m1 \<noteq> None" by (simp add: fit_success_stores_beta)
      with Cons.prems b1 f Inr Fit Cons.IH [of m1 True] show ?thesis by simp
    qed
  next
    case (Evaluate r)
    obtain res m1 where e: "evaluate ext m r = (res, m1)"
      by (cases "evaluate ext m r")
    from evaluate_frame [OF e] Cons.prems e Evaluate Cons.IH [of m1 fitted]
    show ?thesis by simp
  next
    case (Smooth rw b me)
    with Cons.prems Cons.IH [of m fitted] show ?thesis by simp
  qed
qed

lemma np_stack_axis1_Inr:
  "np_stack_axis1 phi = Inr X \<Longrightarrow> X = phi \<and> phi \<noteq> []"
  by (auto simp: np_stack_axis1_def split: list.splits if_splits)

lemma fit_fourier_success:
  assumes "fit ext m rw b v = (Inr u, m')" and "basis m = ''fourier''"
  shows "\<exists>ys phi p.
           average_daily_activity rw b (sampling_freq m) = Inr ys \<and>
           nsamples m' = Some (length ys) \<and> basis_functions m' = Some phi \<and>
           phi \<noteq> [] \<and> np_stack_axis1 phi = Inr phi \<and>
           OLS_params ext ys phi = Inr p \<and> beta m' = Some (Params p) \<and>
           basis m' = ''fourier''"
proof -
  from assms obtain ys where
    ys: "average_daily_activity rw b (sampling_freq m) = Inr ys"
    by (auto simp: fit_def split: sum.splits)
  let ?m1 = "m\<lparr>nsamples := Some (length ys)\<rparr>"
  obtain res m2 where g: "get_basis_functions ?m1 = (res, m2)"
    by (cases "get_basis_functions ?m1")
  from assms ys g obtain phi where res: "res = Inr phi"
    by (cases res) (auto simp: fit_def)
  from get_basis_functions_frame [OF g]
  have fr: "basis m2 = ''fourier''" "nsamples m2 = Some (length ys)"
    using assms(2) by simp_all
  from get_basis_functions_result g res
  have bf: "basis_functions m2 = Some phi" by simp
  from assms ys g res obtain X where st: "np_stack_axis1 phi = Inr X"
    by (cases "np_stack_axis1 phi") (auto simp: fit_def)
  from np_stack_axis1_Inr [OF st] have X: "X = phi" "phi \<noteq> []" by simp_all
  from assms ys g res st obtain p where
    p: "OLS_params ext ys X = Inr p" and m': "m' = m2\<lparr>beta := Some (Params p)\<rparr>"
    by (cases "OLS_params ext ys X") (auto simp: fit_def)
  from ys fr bf st X p m' show ?thesis by simp
qed

lemma fit_spline_success:
  assumes "fit ext m rw b v = (Inr u, m')" and "basis m = ''spline''"
  shows "\<exists>ys t k rep.
           average_daily_activity rw b (sampling_freq m) = Inr ys \<and>
           nsamples m' = Some (length ys) \<and> splrep ext t ys k = Inr rep \<and>
           beta m' = Some (Spline rep) \<and> basis m' = ''spline''"
proof -
  from assms obtain ys where
    ys: "average_daily_activity rw b (sampling_freq m) = Inr ys"
    by (auto simp: fit_def split: sum.splits)
  obtain t where t: "np_linspace 0 (real (length ys)) (int (length ys)) = Inr t"
    by (simp add: np_linspace_def)
  let ?k = "case max_order m of None \<Rightarrow> 3 | Some mo \<Rightarrow> mo"
  from assms ys t obtain rep where
    "splrep ext t ys ?k = Inr rep"
    "m' = m\<lparr>nsamples := Some (length ys), beta := Some (Spline rep)\<rparr>"
    by (cases "splrep ext t ys ?k") (auto simp: fit_def Let_def)
  with ys assms(2) show ?thesis by auto
qed

lemma np_dot_nth:
  assumes "length p = length X" and "X \<noteq> []" and "i < length (hd X)"
  shows "\<exists>ys. np_dot X p = Inr ys \<and> length ys = length (hd X) \<and>
           ys ! i = (\<Sum>j = 0..<length X. X ! j ! i * p ! j)"
proof -
  have "sum_list (map2 (\<lambda>col c. col ! i * c) X p) =
          (\<Sum>j = 0..<length X. X ! j ! i * p ! j)"
    using assms(1) by (simp add: sum_list_sum_nth)
  with assms show ?thesis by (cases X) (simp_all add: np_dot_def)
qed

text \<open>
  Whatever the model, the libraries and the ratio: on a reader that is not empty the
  sequential branch of \<^verbatim>\<open>evaluate_reader\<close> raises at its first record.
\<close>

lemma evaluate_reader_nonempty_raises:
  "evaluate_reader ext m \<lparr>readers = rw # rws\<rparr> r =
     (Inl (TypeError ''evaluate() takes from 1 to 2 positional arguments''), m)"
  by (simp add: evaluate_reader_def evaluate_call_def)

subsection \<open>The claims\<close>

text \<open>
  C2. On a model whose coefficients are undefined (no fit has stored any), \<^verbatim>\<open>evaluate\<close>
  raises, for every argument \<open>r\<close> and every basis, the \<^verbatim>\<open>ValueError\<close> whose message
  asks to run \<^verbatim>\<open>fit\<close> first; it returns no value and leaves the model as it was.
\<close>

theorem evaluate_before_fit_raises:
  "beta m = None \<Longrightarrow> evaluate ext m r = (Inl (ValueError evaluate_msg), m)"
  by (simp add: evaluate_def)

text \<open>The same on a freshly constructed Fourier model.\<close>

theorem evaluate_before_fit_raises_witness:
  "beta \<lparr>basis = ''fourier'', sampling_freq = ''1min'', nsamples = None,
         max_order = Some 2, basis_functions = None, beta = None\<rparr> = None \<and>
   init ''fourier'' ''1min'' (Some 2) =
     Inr \<lparr>basis = ''fourier'', sampling_freq = ''1min'', nsamples = None,
          max_order = Some 2, basis_functions = None, beta = None\<rparr> \<and>
   evaluate example_ext
     \<lparr>basis = ''fourier'', sampling_freq = ''1min'', nsamples = None,
      max_order = Some 2, basis_functions = None, beta = None\<rparr> (ArgInt 10) =
     (Inl (ValueError evaluate_msg),
      \<lparr>basis = ''fourier'', sampling_freq = ''1min'', nsamples = None,
       max_order = Some 2, basis_functions = None, beta = None\<rparr>)"
  using evaluate_before_fit_raises
          [of "\<lparr>basis = ''fourier'', sampling_freq = ''1min'', nsamples = None,
                max_order = Some 2, basis_functions = None, beta = None\<rparr>" example_ext "ArgInt 10"]
  by (simp add: init_def bases_def)

text \<open>
  C10. Whenever the record delivers its daily average, \<^verbatim>\<open>fit\<close> leaves \<^verbatim>\<open>nsamples\<close> equal
  to the length of that series: for every basis, whatever \<^verbatim>\<open>nsamples\<close> was before, and
  whether the rest of the call stores coefficients, raises, or (for a basis other than
  Fourier and spline) does nothing more, in which case the coefficients are those of
  before.
\<close>

theorem fit_overwrites_nsamples:
  assumes "average_daily_activity rw binarize (sampling_freq m) = Inr daily_avg"
  shows "nsamples (snd (fit ext m rw binarize verbose)) = Some (length daily_avg) \<and>
         (basis m \<noteq> ''fourier'' \<and> basis m \<noteq> ''spline'' \<longrightarrow>
            fit ext m rw binarize verbose =
              (Inr (), m\<lparr>nsamples := Some (length daily_avg)\<rparr>))"
proof -
  let ?m1 = "m\<lparr>nsamples := Some (length daily_avg)\<rparr>"
  obtain res m2 where g: "get_basis_functions ?m1 = (res, m2)"
    by (cases "get_basis_functions ?m1")
  from get_basis_functions_frame [OF g]
  have n2: "nsamples m2 = Some (length daily_avg)" by simp
  have "nsamples (snd (fit ext m rw binarize verbose)) = Some (length daily_avg)"
    using assms g n2
    by (auto simp: fit_def Let_def np_linspace_def split: sum.splits option.splits)
  moreover have "basis m \<noteq> ''fourier'' \<and> basis m \<noteq> ''spline'' \<longrightarrow>
          fit ext m rw binarize verbose = (Inr (), m\<lparr>nsamples := Some (length daily_avg)\<rparr>)"
    using assms by (simp add: fit_def)
  ultimately show ?thesis by simp
qed

text \<open>
  A wavelet model that remembers 5 samples and coefficients from elsewhere, fitted to a
  record of 3 samples: 3 samples afterwards, the coefficients untouched.
\<close>

theorem fit_overwrites_nsamples_witness:
  "fit example_ext
     \<lparr>basis = ''wavelet'', sampling_freq = ''1min'', nsamples = Some 5,
      max_order = None, basis_functions = None, beta = Some (Params [1])\<rparr>
     (example_raw ''a'' [1, 2, 3]) False False =
   (Inr (), \<lparr>basis = ''wavelet'', sampling_freq = ''1min'', nsamples = Some 3,
             max_order = None, basis_functions = None, beta = Some (Params [1])\<rparr>)"
  using fit_overwrites_nsamples
          [of "example_raw ''a'' [1, 2, 3]" False
              "\<lparr>basis = ''wavelet'', sampling_freq = ''1min'', nsamples = Some 5,
                max_order = None, basis_functions = None, beta = Some (Params [1])\<rparr>"
              "[1, 2, 3]" example_ext False]
  by (simp add: example_raw_def)

text \<open>
  C5. The specification asks \<^verbatim>\<open>fit\<close> to raise for the bases \<^verbatim>\<open>ssa\<close> and \<^verbatim>\<open>wavelet\<close>. The
  constructor accepts both, and \<^verbatim>\<open>fit\<close> has no branch for them: it returns without an
  exception, having set \<^verbatim>\<open>nsamples\<close> only, and the coefficients stay undefined.
\<close>

theorem fit_unimplemented_basis_returns:
  "init ''ssa'' ''1min'' None =
     Inr \<lparr>basis = ''ssa'', sampling_freq = ''1min'', nsamples = None,
          max_order = None, basis_functions = None, beta = None\<rparr> \<and>
   fit example_ext
     \<lparr>basis = ''ssa'', sampling_freq = ''1min'', nsamples = None,
      max_order = None, basis_functions = None, beta = None\<rparr>
     (example_raw ''a'' [1, 2, 3]) False False =
   (Inr (), \<lparr>basis = ''ssa'', sampling_freq = ''1min'', nsamples = Some 3,
             max_order = None, basis_functions = None, beta = None\<rparr>) \<and>
   init ''wavelet'' ''1min'' None =
     Inr \<lparr>basis = ''wavelet'', sampling_freq = ''1min'', nsamples = None,
          max_order = None, basis_functions = None, beta = None\<rparr> \<and>
   fit example_ext
     \<lparr>basis = ''wavelet'', sampling_freq = ''1min'', nsamples = None,
      max_order = None, basis_functions = None, beta = None\<rparr>
     (example_raw ''a'' [1, 2, 3]) False False =
   (Inr (), \<lparr>basis = ''wavelet'', sampling_freq = ''1min'', nsamples = Some 3,
             max_order = None, basis_functions = None, beta = None\<rparr>)"
  by (simp add: init_def bases_def fit_def example_raw_def)

text \<open>
  C1. The specification asks \<^verbatim>\<open>evaluate_reader\<close> for one entry per record. Its sequential branch
  calls \<^verbatim>\<open>self.evaluate(raw, r)\<close>, two arguments for the one parameter \<open>r\<close> of
  \<^verbatim>\<open>evaluate\<close>, so the call for the first record raises \<^verbatim>\<open>TypeError\<close> and no mapping is
  returned: here on a spline model after a fit that succeeded, with a reader of one
  record.
\<close>

theorem evaluate_reader_raises_TypeError:
  "fst (fit example_ext
          \<lparr>basis = ''spline'', sampling_freq = ''1min'', nsamples = None,
           max_order = None, basis_functions = None, beta = None\<rparr>
          (example_raw ''a'' [1, 2, 3, 4, 5]) False False) = Inr () \<and>
   fst (evaluate_reader example_ext
          (snd (fit example_ext
                  \<lparr>basis = ''spline'', sampling_freq = ''1min'', nsamples = None,
                   max_order = None, basis_functions = None, beta = None\<rparr>
                  (example_raw ''a'' [1, 2, 3, 4, 5]) False False))
          \<lparr>readers = [example_raw ''a'' [1, 2, 3, 4, 5]]\<rparr> 10) =
     Inl (TypeError ''evaluate() takes from 1 to 2 positional arguments'')"
  by (simp add: fit_def example_raw_def example_ext_def np_linspace_def
                evaluate_reader_def evaluate_call_def)

text \<open>
  C7. The specification asks \<^verbatim>\<open>smooth\<close> for a configuration error on an unknown method. The
  code has no branch for it: no error is raised where the method is examined, the
  variable \<^verbatim>\<open>fwhm\<close> stays unassigned, and reading it in the last statement raises
  \<^verbatim>\<open>UnboundLocalError\<close>.
\<close>

theorem smooth_unknown_method_UnboundLocalError:
  "smooth example_ext
     \<lparr>basis = ''fourier'', sampling_freq = ''1min'', nsamples = None,
      max_order = Some 2, basis_functions = None, beta = None\<rparr>
     (example_raw ''a'' [1, 2, 3]) False (Str ''bogus'') =
   Inl (UnboundLocalError ''local variable fwhm referenced before assignment'')"
  by (simp add: smooth_def example_raw_def)

text \<open>
  C3. For a Fourier model with \<open>max_order = k\<close> and a cycle of \<open>T > 0\<close> samples,
  \<^verbatim>\<open>__create_basis_functions(T)\<close> stores, and the property \<^verbatim>\<open>basis_functions\<close> on its
  first access returns, the list \<open>fourier_basis_spec T k\<close>, which depends on \<open>T\<close> and \<open>k\<close>
  only: \<open>2 * k + 1\<close> vectors of length \<open>T\<close>, the constant \<open>1\<close> first, then for each
  \<open>n = 1, ..., k\<close> the cosine at position \<open>2 * n - 1\<close> and the sine at position \<open>2 * n\<close>,
  of angular frequency \<open>n * 2 * pi / T\<close>, sampled at the points \<open>0, 1, ..., T - 1\<close>.
  (Real arithmetic stands for \<^verbatim>\<open>float64\<close>. An empty series, \<open>T = 0\<close>, raises
  \<^verbatim>\<open>ZeroDivisionError\<close> in \<^verbatim>\<open>2*np.pi / T\<close>.)
\<close>

theorem fourier_basis_construction:
  assumes "basis m = ''fourier''" and "max_order m = Some (int k)" and "0 < T"
  shows "create_basis_functions m (Some T) =
           Inr (m\<lparr>basis_functions := Some (fourier_basis_spec T k)\<rparr>) \<and>
         (basis_functions m = None \<and> nsamples m = Some T \<longrightarrow>
            get_basis_functions m =
              (Inr (fourier_basis_spec T k),
               m\<lparr>basis_functions := Some (fourier_basis_spec T k)\<rparr>)) \<and>
         length (fourier_basis_spec T k) = 2 * k + 1 \<and>
         (\<forall>v \<in> set (fourier_basis_spec T k). length v = T) \<and>
         fourier_basis_spec T k ! 0 = replicate T 1 \<and>
         (\<forall>n \<in> {1..k}.
            fourier_basis_spec T k ! (2 * n - 1) =
              map (\<lambda>i. cos (real n * (2 * pi / real T) * real i)) [0..<T] \<and>
            fourier_basis_spec T k ! (2 * n) =
              map (\<lambda>i. sin (real n * (2 * pi / real T) * real i)) [0..<T])"
proof -
  note c = create_fourier [OF assms]
  have "basis_functions m = None \<and> nsamples m = Some T \<longrightarrow>
          get_basis_functions m =
            (Inr (fourier_basis_spec T k),
             m\<lparr>basis_functions := Some (fourier_basis_spec T k)\<rparr>)"
    by (simp add: get_basis_functions_def c)
  moreover have "fourier_basis_spec T k ! 0 = replicate T 1"
    by (simp add: fourier_basis_spec_def del: upt_Suc)
  ultimately show ?thesis
    using c fourier_basis_spec_length fourier_basis_spec_lengths fourier_basis_spec_nth
    by simp
qed

theorem fourier_basis_construction_witness:
  "create_basis_functions
     \<lparr>basis = ''fourier'', sampling_freq = ''6h'', nsamples = Some 4,
      max_order = Some 2, basis_functions = None, beta = None\<rparr> (Some 4) =
   Inr \<lparr>basis = ''fourier'', sampling_freq = ''6h'', nsamples = Some 4,
        max_order = Some 2, basis_functions = Some (fourier_basis_spec 4 2), beta = None\<rparr> \<and>
   length (fourier_basis_spec 4 2) = 5 \<and>
   fourier_basis_spec 4 2 ! 3 = map (\<lambda>i. cos (2 * (2 * pi / 4) * real i)) [0..<4] \<and>
   fourier_basis_spec 4 2 ! 4 = map (\<lambda>i. sin (2 * (2 * pi / 4) * real i)) [0..<4]"
proof -
  note t = fourier_basis_construction
             [of "\<lparr>basis = ''fourier'', sampling_freq = ''6h'', nsamples = Some 4,
                   max_order = Some 2, basis_functions = None, beta = None\<rparr>" 2 4]
  have n: "(2::nat) \<in> {1..2}" by simp
  have h: "basis \<lparr>basis = ''fourier'', sampling_freq = ''6h'', nsamples = Some 4,
                   max_order = Some 2, basis_functions = None, beta = None\<rparr> = ''fourier''"
          "max_order \<lparr>basis = ''fourier'', sampling_freq = ''6h'', nsamples = Some 4,
                   max_order = Some 2, basis_functions = None, beta = None\<rparr> = Some (int 2)"
          "0 < (4::nat)"
    by simp_all
  from t [OF h] have
    a: "create_basis_functions
          \<lparr>basis = ''fourier'', sampling_freq = ''6h'', nsamples = Some 4,
           max_order = Some 2, basis_functions = None, beta = None\<rparr> (Some 4) =
        Inr (\<lparr>basis = ''fourier'', sampling_freq = ''6h'', nsamples = Some 4,
           max_order = Some 2, basis_functions = None, beta = None\<rparr>
             \<lparr>basis_functions := Some (fourier_basis_spec 4 2)\<rparr>)"
    and b: "length (fourier_basis_spec 4 2) = 2 * 2 + 1"
    and c: "\<forall>n \<in> {1..2}.
            fourier_basis_spec 4 2 ! (2 * n - 1) =
              map (\<lambda>i. cos (real n * (2 * pi / real 4) * real i)) [0..<4] \<and>
            fourier_basis_spec 4 2 ! (2 * n) =
              map (\<lambda>i. sin (real n * (2 * pi / real 4) * real i)) [0..<4]"
    by blast+
  from bspec [OF c n] a b show ?thesis by simp
qed

text \<open>
  C6. When the record delivers the series \<open>ys\<close> of length \<open>n\<close>, \<^verbatim>\<open>smooth\<close> returns what
  the kernel smoother returns for \<open>ys\<close> and the bandwidth
  \<open>n powr (-1/5) * sqrt (8 * ln 2) * s\<close> for the method \<^verbatim>\<open>scotts\<close>,
  \<open>(n * 3/4) powr (-1/5) * sqrt (8 * ln 2) * s\<close> for \<^verbatim>\<open>silverman\<close>, where \<open>s\<close> is the
  standard deviation of \<open>ys\<close> with divisor \<open>n - 1\<close>, and the number itself, whatever the
  series, for a numeric method. The first two are stated for \<open>n \<ge> 2\<close>, where the sample
  standard deviation exists (numpy returns \<^verbatim>\<open>nan\<close> below). Real arithmetic stands for
  \<^verbatim>\<open>float64\<close>.
\<close>

theorem smooth_bandwidth:
  assumes "average_daily_activity rw binarize (sampling_freq m) = Inr ys"
  shows "(2 \<le> length ys \<longrightarrow>
            smooth ext m rw binarize (Str ''scotts'') =
              spm1d_util_smooth ext ys
                (real (length ys) powr (- 1 / 5) * sqrt (8 * ln 2) * np_std ys 1) \<and>
            smooth ext m rw binarize (Str ''silverman'') =
              spm1d_util_smooth ext ys
                ((real (length ys) * 3 / 4) powr (- 1 / 5) * sqrt (8 * ln 2) * np_std ys 1) \<and>
            np_std ys 1 =
              sqrt ((\<Sum>y\<leftarrow>ys. (y - sum_list ys / real (length ys))\<^sup>2) /
                    (real (length ys) - 1))) \<and>
         smooth ext m rw binarize (Num x) = spm1d_util_smooth ext ys x"
proof -
  have "real (length ys - 1) = real (length ys) - 1" if "2 \<le> length ys"
    using that by (simp add: of_nat_diff)
  then have "2 \<le> length ys \<longrightarrow> np_std ys 1 =
              sqrt ((\<Sum>y\<leftarrow>ys. (y - sum_list ys / real (length ys))\<^sup>2) /
                    (real (length ys) - 1))"
    by (simp add: np_std_def Let_def)
  moreover have "smooth ext m rw binarize (Str ''scotts'') =
              spm1d_util_smooth ext ys
                (real (length ys) powr (- 1 / 5) * sqrt (8 * ln 2) * np_std ys 1)"
    using assms by (simp add: smooth_def scotts_factor_def Let_def)
  moreover have "smooth ext m rw binarize (Str ''silverman'') =
              spm1d_util_smooth ext ys
                ((real (length ys) * 3 / 4) powr (- 1 / 5) * sqrt (8 * ln 2) * np_std ys 1)"
    using assms by (simp add: smooth_def silverman_factor_def Let_def)
  moreover have "smooth ext m rw binarize (Num x) = spm1d_util_smooth ext ys x"
    using assms by (simp add: smooth_def Let_def)
  ultimately show ?thesis by simp
qed

theorem smooth_bandwidth_witness:
  "smooth example_ext
     \<lparr>basis = ''spline'', sampling_freq = ''8h'', nsamples = None,
      max_order = None, basis_functions = None, beta = None\<rparr>
     (example_raw ''a'' [1, 2, 3]) False (Str ''scotts'') =
   spm1d_util_smooth example_ext [1, 2, 3] (3 powr (- 1 / 5) * sqrt (8 * ln 2) * 1) \<and>
   smooth example_ext
     \<lparr>basis = ''spline'', sampling_freq = ''8h'', nsamples = None,
      max_order = None, basis_functions = None, beta = None\<rparr>
     (example_raw ''a'' [1, 2, 3]) False (Str ''silverman'') =
   spm1d_util_smooth example_ext [1, 2, 3] ((3 * 3 / 4) powr (- 1 / 5) * sqrt (8 * ln 2) * 1) \<and>
   smooth example_ext
     \<lparr>basis = ''spline'', sampling_freq = ''8h'', nsamples = None,
      max_order = None, basis_functions = None, beta = None\<rparr>
     (example_raw ''a'' [1, 2, 3]) False (Num 5) =
   spm1d_util_smooth example_ext [1, 2, 3] 5"
proof -
  have s: "np_std [1, 2, 3] 1 = 1"
    by (simp add: np_std_def Let_def power2_eq_square)
  have h: "average_daily_activity (example_raw ''a'' [1, 2, 3]) False
             (sampling_freq \<lparr>basis = ''spline'', sampling_freq = ''8h'', nsamples = None,
                max_order = None, basis_functions = None, beta = None\<rparr>) = Inr [1, 2, 3]"
    by (simp add: example_raw_def)
  from smooth_bandwidth [OF h, of example_ext 5] s show ?thesis by simp
qed

text \<open>
  C8. For a model of a supported basis (Fourier or spline): the coefficients are
  undefined after construction; after any sequence of calls of \<^verbatim>\<open>fit\<close>, \<^verbatim>\<open>evaluate\<close>
  and \<^verbatim>\<open>smooth\<close> on the constructed object, failed calls included, the coefficients are
  defined exactly when some call of \<^verbatim>\<open>fit\<close> in the sequence has returned without an
  exception; and every call of \<^verbatim>\<open>fit\<close> that returns without an exception leaves them
  defined.
\<close>

theorem coefficients_defined_iff_fitted:
  assumes "init b sf mo = Inr m0" and "b = ''fourier'' \<or> b = ''spline''"
  shows "beta m0 = None \<and>
         (\<forall>cs m fitted. lifecycle ext cs (m0, False) = (m, fitted) \<longrightarrow>
            (beta m \<noteq> None) = fitted) \<and>
         (\<forall>m rw binarize verbose m'.
            basis m = b \<and> fit ext m rw binarize verbose = (Inr (), m') \<longrightarrow> beta m' \<noteq> None)"
proof -
  from assms(1) have m0: "beta m0 = None" "basis m0 = b"
    by (auto simp: init_def split: if_splits)
  have "(beta m \<noteq> None) = fitted" if "lifecycle ext cs (m0, False) = (m, fitted)"
    for cs m fitted
    using lifecycle_invariant [OF _ _ that] m0 assms(2) by simp
  moreover have "beta m' \<noteq> None"
    if "basis m = b \<and> fit ext m rw binarize verbose = (Inr (), m')"
    for m rw binarize verbose m'
    using that assms(2) fit_success_stores_beta [of ext m rw binarize verbose "()" m'] by auto
  ultimately show ?thesis using m0 by blast
qed

theorem coefficients_defined_iff_fitted_witness:
  "init ''spline'' ''1min'' None =
     Inr \<lparr>basis = ''spline'', sampling_freq = ''1min'', nsamples = None,
          max_order = None, basis_functions = None, beta = None\<rparr> \<and>
   snd (lifecycle example_ext
          [Evaluate (ArgInt 10),
           Fit (example_raw ''a'' [1, 2, 3, 4, 5]) False False,
           Fit (example_raw ''b'' [1, 2]) False False]
          (\<lparr>basis = ''spline'', sampling_freq = ''1min'', nsamples = None,
            max_order = None, basis_functions = None, beta = None\<rparr>, False)) = True \<and>
   beta (fst (lifecycle example_ext
          [Evaluate (ArgInt 10),
           Fit (example_raw ''a'' [1, 2, 3, 4, 5]) False False,
           Fit (example_raw ''b'' [1, 2]) False False]
          (\<lparr>basis = ''spline'', sampling_freq = ''1min'', nsamples = None,
            max_order = None, basis_functions = None, beta = None\<rparr>, False))) \<noteq> None \<and>
   snd (lifecycle example_ext
          [Evaluate (ArgInt 10), Fit (example_raw ''b'' [1, 2]) False False]
          (\<lparr>basis = ''spline'', sampling_freq = ''1min'', nsamples = None,
            max_order = None, basis_functions = None, beta = None\<rparr>, False)) = False \<and>
   beta (fst (lifecycle example_ext
          [Evaluate (ArgInt 10), Fit (example_raw ''b'' [1, 2]) False False]
          (\<lparr>basis = ''spline'', sampling_freq = ''1min'', nsamples = None,
            max_order = None, basis_functions = None, beta = None\<rparr>, False))) = None"
proof -
  let ?m0 = "\<lparr>basis = ''spline'', sampling_freq = ''1min'', nsamples = None,
              max_order = None, basis_functions = None, beta = None\<rparr>"
  let ?cs1 = "[Evaluate (ArgInt 10),
           Fit (example_raw ''a'' [1, 2, 3, 4, 5]) False False,
           Fit (example_raw ''b'' [1, 2]) False False]"
  let ?cs2 = "[Evaluate (ArgInt 10), Fit (example_raw ''b'' [1, 2]) False False]"
  have i: "init ''spline'' ''1min'' None = Inr ?m0"
    by (simp add: init_def bases_def)
  have s1: "snd (lifecycle example_ext ?cs1 (?m0, False)) = True"
    by (simp add: evaluate_def fit_def example_raw_def example_ext_def np_linspace_def)
  have s2: "snd (lifecycle example_ext ?cs2 (?m0, False)) = False"
    by (simp add: evaluate_def fit_def example_raw_def example_ext_def np_linspace_def)
  note t = coefficients_defined_iff_fitted [OF i, of example_ext]
  from t have "\<forall>cs m fitted. lifecycle example_ext cs (?m0, False) = (m, fitted) \<longrightarrow>
            (beta m \<noteq> None) = fitted" by simp
  then have k: "(beta (fst (lifecycle example_ext cs (?m0, False))) \<noteq> None) =
              snd (lifecycle example_ext cs (?m0, False))" for cs
    by (metis prod.collapse)
  from k [of ?cs1] k [of ?cs2] s1 s2 i show ?thesis by simp
qed

text \<open>
  C4. Let \<^verbatim>\<open>fit\<close> have returned without an exception, leaving the model \<open>m'\<close> with
  \<^verbatim>\<open>nsamples\<close> \<open>= n\<close>.

  Fourier: provided the least-squares library returns parameters only for a design
  matrix with one row per observation, and then one parameter per column, \<^verbatim>\<open>evaluate\<close>
  returns for every argument \<open>r\<close> the same sequence \<open>ys\<close>, the product of the cached basis
  matrix with the stored parameters: it has length \<open>n\<close>, and its entry \<open>i\<close> is the sum over
  the basis vectors \<open>j\<close> of \<open>phi ! j ! i * p ! j\<close>. The model is unchanged.

  Spline: provided \<^verbatim>\<open>splev\<close> returns one value per point for a representation that
  \<^verbatim>\<open>splrep\<close> has returned and an array of points that is not empty, \<^verbatim>\<open>evaluate\<close> with
  \<open>r \<ge> 1\<close> on a series that is not empty returns what \<^verbatim>\<open>splev\<close> returns for the
  stored representation at the \<open>r * n\<close> points \<open>i * (n / (r * n))\<close>, \<open>i = 0, ..., r * n - 1\<close>,
  which are equally spaced over the cycle; the result has length \<open>r * n\<close>. (A negative
  \<open>r\<close> raises in \<^verbatim>\<open>np.linspace\<close>; with \<open>r = 0\<close> the array of points is empty, which
  scipy refuses.)
\<close>

theorem evaluate_after_fit:
  assumes "fit ext m rw binarize verbose = (Inr (), m')"
  shows "(basis m = ''fourier'' \<and>
          (\<forall>y X p. OLS_params ext y X = Inr p \<longrightarrow>
             length p = length X \<and> (\<forall>col \<in> set X. length col = length y)) \<longrightarrow>
            (\<exists>n phi p ys.
               nsamples m' = Some n \<and> basis_functions m' = Some phi \<and>
               beta m' = Some (Params p) \<and>
               (\<forall>r. evaluate ext m' r = (Inr (Some ys), m')) \<and>
               np_dot phi p = Inr ys \<and> length ys = n \<and>
               (\<forall>i<n. ys ! i = (\<Sum>j = 0..<length phi. phi ! j ! i * p ! j)))) \<and>
         (basis m = ''spline'' \<and> 1 \<le> r \<and>
          average_daily_activity rw binarize (sampling_freq m) \<noteq> Inr [] \<and>
          (\<forall>t y k rep g. splrep ext t y k = Inr rep \<and> g \<noteq> [] \<longrightarrow>
             (\<exists>ys. splev ext g rep = Inr ys \<and> length ys = length g)) \<longrightarrow>
            (\<exists>n rep ys.
               nsamples m' = Some n \<and> beta m' = Some (Spline rep) \<and>
               evaluate ext m' (ArgInt r) = (Inr (Some ys), m') \<and>
               splev ext (map (\<lambda>i. real i * (real n / real_of_int (r * int n)))
                               [0..<nat r * n]) rep = Inr ys \<and>
               length ys = nat r * n))"
proof -
  have fourier: "\<exists>n phi p ys.
               nsamples m' = Some n \<and> basis_functions m' = Some phi \<and>
               beta m' = Some (Params p) \<and>
               (\<forall>r. evaluate ext m' r = (Inr (Some ys), m')) \<and>
               np_dot phi p = Inr ys \<and> length ys = n \<and>
               (\<forall>i<n. ys ! i = (\<Sum>j = 0..<length phi. phi ! j ! i * p ! j))"
    if b: "basis m = ''fourier''"
    and ols: "\<forall>y X p. OLS_params ext y X = Inr p \<longrightarrow>
             length p = length X \<and> (\<forall>col \<in> set X. length col = length y)"
  proof -
    from fit_fourier_success [OF assms b] obtain obs phi p where
      f: "nsamples m' = Some (length obs)" "basis_functions m' = Some phi" "phi \<noteq> []"
         "np_stack_axis1 phi = Inr phi" "OLS_params ext obs phi = Inr p"
         "beta m' = Some (Params p)" "basis m' = ''fourier''"
      by blast
    from ols f(5) have lp: "length p = length phi"
      and cols: "\<forall>col \<in> set phi. length col = length obs" by blast+
    from cols f(3) have hd: "length (hd phi) = length obs" by simp
    from lp hd f(3) obtain ys where ys: "np_dot phi p = Inr ys" "length ys = length obs"
      by (cases phi) (simp_all add: np_dot_def)
    have ev: "evaluate ext m' r = (Inr (Some ys), m')" for r
      using f ys by (simp add: evaluate_def get_basis_functions_cached)
    have "ys ! i = (\<Sum>j = 0..<length phi. phi ! j ! i * p ! j)" if "i < length obs" for i
      using np_dot_nth [OF lp f(3), of i] that hd ys by auto
    with f ys ev show ?thesis by blast
  qed
  have spline: "\<exists>n rep ys.
               nsamples m' = Some n \<and> beta m' = Some (Spline rep) \<and>
               evaluate ext m' (ArgInt r) = (Inr (Some ys), m') \<and>
               splev ext (map (\<lambda>i. real i * (real n / real_of_int (r * int n)))
                               [0..<nat r * n]) rep = Inr ys \<and>
               length ys = nat r * n"
    if b: "basis m = ''spline''" and r: "1 \<le> r"
    and ne: "average_daily_activity rw binarize (sampling_freq m) \<noteq> Inr []"
    and sp: "\<forall>t y k rep g. splrep ext t y k = Inr rep \<and> g \<noteq> [] \<longrightarrow>
             (\<exists>ys. splev ext g rep = Inr ys \<and> length ys = length g)"
  proof -
    from fit_spline_success [OF assms b] obtain obs t k rep where
      f: "average_daily_activity rw binarize (sampling_freq m) = Inr obs"
         "nsamples m' = Some (length obs)" "splrep ext t obs k = Inr rep"
         "beta m' = Some (Spline rep)" "basis m' = ''spline''"
      by blast
    from f(1) ne have obs: "0 < length obs" by auto
    let ?g = "map (\<lambda>i. real i * (real (length obs) / real_of_int (r * int (length obs))))
                  [0..<nat r * length obs]"
    from r obs have "0 < nat r * length obs" by simp
    then have "?g \<noteq> []" by simp
    with sp f(3) obtain ys where ys: "splev ext ?g rep = Inr ys" "length ys = length ?g"
      by blast
    from r have nn: "nat (r * int (length obs)) = nat r * length obs"
      by (simp add: nat_mult_distrib)
    from r have "\<not> r * int (length obs) < 0"
      by (simp add: not_less)
    then have ls: "np_linspace 0 (real (length obs)) (r * int (length obs)) = Inr ?g"
      by (simp add: np_linspace_def nn)
    have "evaluate ext m' (ArgInt r) = (Inr (Some ys), m')"
      using f ys(1) ls by (simp add: evaluate_def)
    with f ys show ?thesis by auto
  qed
  from fourier spline show ?thesis by blast
qed


theorem evaluate_after_fit_witness:
  "(\<exists>ys. evaluate example_ext
           (snd (fit example_ext
                   \<lparr>basis = ''fourier'', sampling_freq = ''12h'', nsamples = None,
                    max_order = Some 1, basis_functions = None, beta = None\<rparr>
                   (example_raw ''a'' [1, 2]) False False)) (ArgInt 3) =
         (Inr (Some ys),
          snd (fit example_ext
                   \<lparr>basis = ''fourier'', sampling_freq = ''12h'', nsamples = None,
                    max_order = Some 1, basis_functions = None, beta = None\<rparr>
                   (example_raw ''a'' [1, 2]) False False)) \<and> length ys = 2) \<and>
   (\<exists>ys. evaluate example_ext
           (snd (fit example_ext
                   \<lparr>basis = ''spline'', sampling_freq = ''1min'', nsamples = None,
                    max_order = None, basis_functions = None, beta = None\<rparr>
                   (example_raw ''a'' [1, 2, 3, 4, 5]) False False)) (ArgInt 3) =
         (Inr (Some ys),
          snd (fit example_ext
                   \<lparr>basis = ''spline'', sampling_freq = ''1min'', nsamples = None,
                    max_order = None, basis_functions = None, beta = None\<rparr>
                   (example_raw ''a'' [1, 2, 3, 4, 5]) False False)) \<and> length ys = 15)"
proof -
  let ?mF = "\<lparr>basis = ''fourier'', sampling_freq = ''12h'', nsamples = None,
              max_order = Some 1, basis_functions = None, beta = None\<rparr>"
  let ?mS = "\<lparr>basis = ''spline'', sampling_freq = ''1min'', nsamples = None,
              max_order = None, basis_functions = None, beta = None\<rparr>"
  let ?fF = "fit example_ext ?mF (example_raw ''a'' [1, 2]) False False"
  let ?fS = "fit example_ext ?mS (example_raw ''a'' [1, 2, 3, 4, 5]) False False"
  have ols: "\<forall>y X p. OLS_params example_ext y X = Inr p \<longrightarrow>
               length p = length X \<and> (\<forall>col \<in> set X. length col = length y)"
    by (auto simp: example_ext_def list_all_iff split: if_splits)
  have spl: "\<forall>t y k rep g. splrep example_ext t y k = Inr rep \<and> g \<noteq> [] \<longrightarrow>
               (\<exists>ys. splev example_ext g rep = Inr ys \<and> length ys = length g)"
    by (simp add: example_ext_def)
  have ne: "average_daily_activity (example_raw ''a'' [1, 2, 3, 4, 5]) False
              (sampling_freq ?mS) \<noteq> Inr []"
    by (simp add: example_raw_def)
  have "fst ?fF = Inr ()"
    by (simp add: fit_def get_basis_functions_def create_basis_functions_def
                  np_linspace_def np_stack_axis1_def example_raw_def example_ext_def)
  then have fF: "?fF = (Inr (), snd ?fF)" by (metis prod.collapse)
  have nF: "nsamples (snd ?fF) = Some 2"
    by (simp add: fit_def get_basis_functions_def create_basis_functions_def
                  np_linspace_def np_stack_axis1_def example_raw_def example_ext_def)
  have "fst ?fS = Inr ()"
    by (simp add: fit_def np_linspace_def example_raw_def example_ext_def)
  then have fS: "?fS = (Inr (), snd ?fS)" by (metis prod.collapse)
  have nS: "nsamples (snd ?fS) = Some 5"
    by (simp add: fit_def np_linspace_def example_raw_def example_ext_def)
  from evaluate_after_fit [OF fF, of 3] ols nF
  have "\<exists>ys. evaluate example_ext (snd ?fF) (ArgInt 3) = (Inr (Some ys), snd ?fF) \<and>
             length ys = 2"
    by auto
  moreover from evaluate_after_fit [OF fS, of 3] spl ne nS
  have "\<exists>ys. evaluate example_ext (snd ?fS) (ArgInt 3) = (Inr (Some ys), snd ?fS) \<and>
             length ys = 15"
    by auto
  ultimately show ?thesis by simp
qed

text \<open>
  C9. The specification asks a fit on a series of another length to rebuild the basis. The
  property \<^verbatim>\<open>basis_functions\<close> builds the basis only while the attribute is \<^verbatim>\<open>None\<close>,
  and nothing resets it. A Fourier model with one harmonic, fitted to a series of
  length 2 and then to one of length 3: the second call sets \<^verbatim>\<open>nsamples\<close> to 3, stacks
  the three cached vectors of length 2 and hands the least-squares library a matrix
  of 2 rows for 3 observations, which statsmodels (and its stand-in here) refuses. The
  model is left with \<^verbatim>\<open>nsamples\<close> \<open>= 3\<close> and basis vectors of length 2.
\<close>

theorem refit_other_length_keeps_basis:
  "fst (fit example_ext
          \<lparr>basis = ''fourier'', sampling_freq = ''12h'', nsamples = None,
           max_order = Some 1, basis_functions = None, beta = None\<rparr>
          (example_raw ''a'' [1, 2]) False False) = Inr () \<and>
   map_option (map length)
     (basis_functions
        (snd (fit example_ext
                \<lparr>basis = ''fourier'', sampling_freq = ''12h'', nsamples = None,
                 max_order = Some 1, basis_functions = None, beta = None\<rparr>
                (example_raw ''a'' [1, 2]) False False))) = Some [2, 2, 2] \<and>
   fit example_ext
     (snd (fit example_ext
             \<lparr>basis = ''fourier'', sampling_freq = ''12h'', nsamples = None,
              max_order = Some 1, basis_functions = None, beta = None\<rparr>
             (example_raw ''a'' [1, 2]) False False))
     (example_raw ''b'' [1, 2, 3]) False False =
   (Inl (ValueError ''endog and exog matrices are different sizes''),
    (snd (fit example_ext
            \<lparr>basis = ''fourier'', sampling_freq = ''12h'', nsamples = None,
             max_order = Some 1, basis_functions = None, beta = None\<rparr>
            (example_raw ''a'' [1, 2]) False False))\<lparr>nsamples := Some 3\<rparr>)"
  by (simp add: fit_def get_basis_functions_def create_basis_functions_def
                np_linspace_def np_stack_axis1_def example_raw_def example_ext_def)

end
